theory Spec2Isabelle
  imports Main
begin

section \<open>Python values used by the scripts\<close>

text \<open>
  The scripts format integers into command strings with f-strings, which is Python's
  \<open>str\<close> on an unbounded integer: decimal digits, most significant first, with a
  leading minus sign for a negative number.
\<close>

definition digit_char :: "nat \<Rightarrow> char" where
  "digit_char d = ''0123456789'' ! d"

fun str_nat :: "nat \<Rightarrow> string" where
  "str_nat n = (if n < 10 then [digit_char n] else str_nat (n div 10) @ [digit_char (n mod 10)])"

declare str_nat.simps [simp del]

definition str_int :: "int \<Rightarrow> string" where
  "str_int i = (if i < 0 then ''-'' @ str_nat (nat (- i)) else str_nat (nat i))"

text \<open>The newline character written \<open>\n\<close> in the Python literals.\<close>

definition newline :: char where
  "newline = CHR 0x0A"

text \<open>
  Exceptions are values. All of them derive from Python's \<open>Exception\<close>, so the
  catch-all handler of \<open>deploy_config\<close> catches each one; \<open>str_exn\<close> is \<open>str(e)\<close>.
\<close>

datatype exn =
    ValueError string
  | IndexError string
  | SerialException string
  | TransportError string

fun str_exn :: "exn \<Rightarrow> string" where
  "str_exn (ValueError m) = m"
| "str_exn (IndexError m) = m"
| "str_exn (SerialException m) = m"
| "str_exn (TransportError m) = m"

text \<open>
  A value passed in a keyword dictionary (\<open>**device_params\<close>): a string, an integer or
  a nested dictionary, kept as an association list in the order written.
\<close>

datatype pyval = PyStr string | PyInt int | PyDict "(string \<times> pyval) list"

type_synonym device_params = "(string \<times> pyval) list"

section \<open>The device transport and the observable world\<close>

text \<open>
  The connection library is an external collaborator. Each call into it is an event; the
  transport answers a call with an exception or with the text it returns, and the answer may
  depend on every call made before (a scripted stub, a real device).

  The world collects what a run does: the calls made, each with its outcome, the lines
  written by the logger and the lines printed.
\<close>

datatype call =
    SerialOpen device_params
  | SerialClose
  | ConnectHandler device_params
  | SendConfigSet "string list"
  | SendCommand string string
  | SaveConfig
  | Disconnect

type_synonym reply = "exn + string"

type_synonym transport = "(call \<times> reply) list \<Rightarrow> call \<Rightarrow> reply"

datatype level = INFO | ERROR

record world =
  calls :: "(call \<times> reply) list"
  logfile :: "(level \<times> string) list"
  stdout :: "string list"

definition init_world :: world where
  "init_world = \<lparr>calls = [], logfile = [], stdout = []\<rparr>"

text \<open>A call that may raise: the transport answers, and the call and its answer are recorded.\<close>

definition perform :: "transport \<Rightarrow> call \<Rightarrow> world \<Rightarrow> reply \<times> world" where
  "perform t c w = (let r = t (calls w) c in (r, w\<lparr>calls := calls w @ [(c, r)]\<rparr>))"

text \<open>
  Leaving a \<open>with\<close> block of a connection: \<open>__exit__\<close> calls \<open>disconnect\<close>, whatever the
  body did. When the disconnect raises, its exception is the one that leaves the block, also
  in place of an exception of the body; when it returns, the outcome of the body stands.
\<close>

definition leave_with :: "transport \<Rightarrow> (exn + 'a) \<times> world \<Rightarrow> (exn + 'a) \<times> world" where
  "leave_with t body =
     (case body of
        (r, w) \<Rightarrow>
          (case perform t Disconnect w of
             (Inl e, w1) \<Rightarrow> (Inl e, w1)
           | (Inr closed, w1) \<Rightarrow> (r, w1)))"

definition logger_info :: "string \<Rightarrow> world \<Rightarrow> world" where
  "logger_info m w = w\<lparr>logfile := logfile w @ [(INFO, m)]\<rparr>"

definition logger_error :: "string \<Rightarrow> world \<Rightarrow> world" where
  "logger_error m w = w\<lparr>logfile := logfile w @ [(ERROR, m)]\<rparr>"

definition print :: "string \<Rightarrow> world \<Rightarrow> world" where
  "print m w = w\<lparr>stdout := stdout w @ [m]\<rparr>"

section \<open>Vlan-Definitions.py: \<open>create_vlans\<close>\<close>

text \<open>
  \<open>vlan_names\<close> is an optional list: \<open>None\<close> when the argument is left out. Python's
  truth test on it (\<open>if vlan_names\<close>) is false for \<open>None\<close> and for the empty list.
\<close>

fun truthy :: "string list option \<Rightarrow> bool" where
  "truthy None = False"
| "truthy (Some []) = False"
| "truthy (Some (n # ns)) = True"

fun names_list :: "string list option \<Rightarrow> string list" where
  "names_list None = []"
| "names_list (Some ns) = ns"

text \<open>\<open>vlan_names[i]\<close> for an index counted up from zero: out of range raises.\<close>

definition list_get :: "string list \<Rightarrow> nat \<Rightarrow> exn + string" where
  "list_get xs i = (if i < length xs then Inr (xs ! i) else Inl (IndexError ''list index out of range''))"

text \<open>
  The loop over \<open>enumerate(vlan_ids)\<close>: \<open>i\<close> is the running index, \<open>commands\<close> the list
  built so far. A bad id raises at once; otherwise one string is appended per id, the name
  line joined to the id line by a newline inside the same string.
\<close>

fun create_vlans_loop :: "string list option \<Rightarrow> nat \<Rightarrow> int list \<Rightarrow> string list \<Rightarrow> exn + string list" where
  "create_vlans_loop vlan_names i [] commands = Inr commands"
| "create_vlans_loop vlan_names i (vlan_id # rest) commands =
     (if \<not> (1 \<le> vlan_id \<and> vlan_id \<le> 4094)
      then Inl (ValueError (''Invalid VLAN ID '' @ str_int vlan_id @ '': Must be 1-4094''))
      else let cmd = ''vlan '' @ str_int vlan_id in
        if truthy vlan_names
        then (case list_get (names_list vlan_names) i of
                Inl e \<Rightarrow> Inl e
              | Inr nm \<Rightarrow> create_vlans_loop vlan_names (Suc i) rest
                           (commands @ [cmd @ [newline] @ ''name '' @ nm]))
        else create_vlans_loop vlan_names (Suc i) rest (commands @ [cmd]))"

definition length_mismatch :: exn where
  "length_mismatch = ValueError ''vlan_ids and vlan_names must be the same length''"

text \<open>Lines 12 to 23 of the function: the length check, then the loop. No transport is involved.\<close>

definition create_vlans_commands :: "int list \<Rightarrow> string list option \<Rightarrow> exn + string list" where
  "create_vlans_commands vlan_ids vlan_names =
     (if truthy vlan_names \<and> length vlan_ids \<noteq> length (names_list vlan_names)
      then Inl length_mismatch
      else create_vlans_loop vlan_names 0 vlan_ids [])"

text \<open>
  The whole function. The \<open>with\<close> block opens the connection, sends the commands, saves,
  and disconnects on the way out whether or not the body raised; an exception of the
  constructor itself leaves nothing to disconnect. Nothing is caught: an exception of the
  constructor, of the body or of the disconnect leaves the function.
\<close>

definition create_vlans ::
  "transport \<Rightarrow> device_params \<Rightarrow> int list \<Rightarrow> string list option \<Rightarrow> world \<Rightarrow> reply \<times> world" where
  "create_vlans t device_params vlan_ids vlan_names w =
     (case create_vlans_commands vlan_ids vlan_names of
        Inl e \<Rightarrow> (Inl e, w)
      | Inr commands \<Rightarrow>
          (case perform t (ConnectHandler device_params) w of
             (Inl e, w1) \<Rightarrow> (Inl e, w1)
           | (Inr conn, w1) \<Rightarrow>
               leave_with t
                 (case perform t (SendConfigSet commands) w1 of
                    (Inl e, w2) \<Rightarrow> (Inl e, w2)
                  | (Inr output, w2) \<Rightarrow>
                      (case perform t SaveConfig w2 of
                         (Inl e, w3) \<Rightarrow> (Inl e, w3)
                       | (Inr saved, w3) \<Rightarrow> (Inr output, w3)))))"

text \<open>
  Reading a list of command strings as the lines a device console receives: every string
  is cut at each newline it holds.
\<close>

fun split_lines :: "string \<Rightarrow> string list" where
  "split_lines [] = [[]]"
| "split_lines (c # cs) =
     (if c = newline then [] # split_lines cs
      else (case split_lines cs of l # ls \<Rightarrow> (c # l) # ls | [] \<Rightarrow> [[c]]))"

definition console_lines :: "string list \<Rightarrow> string list" where
  "console_lines commands = concat (map split_lines commands)"

section \<open>DR-DC-TOR-ARSW-02.py: configuration templates\<close>

definition SERIAL_PORT :: string where
  "SERIAL_PORT = ''COM4''"

definition BAUDRATE :: int where
  "BAUDRATE = 9600"

definition TIMEOUT :: int where
  "TIMEOUT = 8"

definition HOSTNAME :: string where
  "HOSTNAME = ''DBDR-HCI-TOR-SW-02''"

definition MGMT_IP :: string where
  "MGMT_IP = ''172.16.105.11/24''"

definition MLAG_PEER_IP :: string where
  "MLAG_PEER_IP = ''10.0.0.1''"

definition MLAG_VLAN_IP :: string where
  "MLAG_VLAN_IP = ''10.0.0.2/30''"

text \<open>
  The list literal of \<open>get_base_config\<close>. After \<open>"no shutdown"\<close> the source has the
  literal \<open>"exit"\<close> with no comma, a comment line, and then the literal
  \<open>"ip domain-name Dashen.local"\<close>: Python joins adjacent string literals into one
  string, so the two make a single list element.
\<close>

definition get_base_config :: "string list" where
  "get_base_config =
     [''enable'',
      ''configure terminal'',
      ''hostname '' @ HOSTNAME,
      ''no aaa root'',
      ''username admin privilege 15 secret %TGBnhy6'',
      ''enable secret %TGBnhy6'',
      ''line console 0'',
      ''login local'',
      ''exec-timeout 10 0'',
      ''no history'',
      ''length 0'',
      ''transport input none'',
      ''exit'',
      ''interface Management1'',
      ''ip address '' @ MGMT_IP,
      ''no shutdown'',
      ''exit'' @ ''ip domain-name Dashen.local'',
      ''username admin privilege 15 secret %TGBnhy6'',
      ''ip ssh version 2'',
      ''crypto key generate rsa modulus 2048'']"

definition get_mlag_config :: "string list" where
  "get_mlag_config =
     [''vlan 4094'',
      ''name MLAG-Peer'',
      ''trunk group MLAG-Peer'',
      ''exit'',
      ''interface Vlan4094'',
      ''ip address '' @ MLAG_VLAN_IP,
      ''no shutdown'',
      ''exit'',
      ''interface Ethernet49-50'',
      ''description MLAG_PEER_LINK_MEMBER'',
      ''channel-group 100 mode active'',
      ''no shutdown'',
      ''exit'',
      ''interface Port-Channel100'',
      ''description MLAG_PEER_LINK'',
      ''switchport mode trunk'',
      ''mlag peer-link'',
      ''no shutdown'',
      ''exit'',
      ''mlag configuration'',
      ''domain-id DR-TOR-MLAG'',
      ''local-interface Vlan4094'',
      ''peer-address '' @ MLAG_PEER_IP,
      ''peer-link Port-Channel100'',
      ''exit'']"

text \<open>Python's \<open>range(a, b)\<close>: the integers from \<open>a\<close> up to \<open>b - 1\<close>.\<close>

definition py_range :: "int \<Rightarrow> int \<Rightarrow> int list" where
  "py_range a b = [a..b - 1]"

text \<open>
  One iteration of the loop of \<open>generate_port_channels\<close>: the eleven strings handed to
  \<open>config.extend\<close> for the channel id \<open>po\<close>.
\<close>

definition port_channel_commands :: "int \<Rightarrow> string list" where
  "port_channel_commands po =
     (let eth_port = po - 9 in
      [''interface Ethernet'' @ str_int eth_port,
       ''description PC_'' @ str_int po @ ''_MEMBER'',
       ''channel-group '' @ str_int po @ '' mode active'',
       ''no shutdown'',
       ''exit'',
       ''interface Port-Channel'' @ str_int po,
       ''description UPLINK_PO_'' @ str_int po,
       ''switchport mode trunk'',
       ''mlag '' @ str_int po,
       ''no shutdown'',
       ''exit''])"

text \<open>The \<open>for\<close> loop: \<open>config\<close> is the list built so far, extended once per channel id.\<close>

fun port_channels_loop :: "string list \<Rightarrow> int list \<Rightarrow> string list" where
  "port_channels_loop config [] = config"
| "port_channels_loop config (po # rest) = port_channels_loop (config @ port_channel_commands po) rest"

definition generate_port_channels :: "string list" where
  "generate_port_channels = port_channels_loop [] (py_range 10 46)"

section \<open>DR-DC-TOR-ARSW-02.py: deployment\<close>

text \<open>
  \<open>establish_serial_connection\<close>: opens the port with the module's settings and the
  library's constants for no parity, one stop bit and eight data bits. A
  \<open>SerialException\<close> is logged and raised again; any other exception passes through.
\<close>

definition serial_settings :: device_params where
  "serial_settings =
     [(''port'', PyStr SERIAL_PORT), (''baudrate'', PyInt BAUDRATE), (''timeout'', PyInt TIMEOUT),
      (''parity'', PyStr ''N''), (''stopbits'', PyInt 1), (''bytesize'', PyInt 8)]"

definition establish_serial_connection :: "transport \<Rightarrow> world \<Rightarrow> (exn + unit) \<times> world" where
  "establish_serial_connection t w =
     (case perform t (SerialOpen serial_settings) w of
        (Inr ser, w1) \<Rightarrow> (Inr (), logger_info (''Serial connection established on '' @ SERIAL_PORT) w1)
      | (Inl e, w1) \<Rightarrow>
          (case e of
             SerialException m \<Rightarrow> (Inl e, logger_error (''Serial connection failed: '' @ str_exn e) w1)
           | _ \<Rightarrow> (Inl e, w1)))"

definition netmiko_device :: device_params where
  "netmiko_device =
     [(''device_type'', PyStr ''terminal_server''),
      (''session_log'', PyStr ''serial_session.log''),
      (''serial_settings'',
         PyDict [(''port'', PyStr SERIAL_PORT), (''baudrate'', PyInt BAUDRATE), (''timeout'', PyInt TIMEOUT)])]"

definition write_memory :: call where
  "write_memory = SendCommand ''write memory'' ''#''"

text \<open>
  The body of the \<open>with\<close> block: three batches, then the save. The first call that raises
  ends the body with its exception; what follows it is not run.
\<close>

definition session_body :: "transport \<Rightarrow> world \<Rightarrow> (exn + unit) \<times> world" where
  "session_body t w =
     (let w0 = logger_info ''Netmiko session established'' w in
      case perform t (SendConfigSet get_base_config) w0 of
        (Inl e, w1) \<Rightarrow> (Inl e, w1)
      | (Inr out1, w1) \<Rightarrow>
     (let w2 = logger_info ''Base configuration applied'' w1 in
      case perform t (SendConfigSet get_mlag_config) w2 of
        (Inl e, w3) \<Rightarrow> (Inl e, w3)
      | (Inr out2, w3) \<Rightarrow>
     (let w4 = logger_info ''MLAG configuration applied'' w3 in
      case perform t (SendConfigSet generate_port_channels) w4 of
        (Inl e, w5) \<Rightarrow> (Inl e, w5)
      | (Inr out3, w5) \<Rightarrow>
     (let w6 = logger_info ''Port-Channels 10-45 configured'' w5 in
      case perform t write_memory w6 of
        (Inl e, w7) \<Rightarrow> (Inl e, w7)
      | (Inr out4, w7) \<Rightarrow>
          (Inr (), print ''\<newline>[SUCCESS] Deployment completed via console!''
                     (logger_info ''Configuration saved'' w7))))))"

text \<open>
  The \<open>with\<close> statement: the constructor connects (and may raise, with nothing to leave);
  the body runs; leaving the block disconnects, which may raise too.
\<close>

definition netmiko_session :: "transport \<Rightarrow> world \<Rightarrow> (exn + unit) \<times> world" where
  "netmiko_session t w =
     (case perform t (ConnectHandler netmiko_device) w of
        (Inl e, w1) \<Rightarrow> (Inl e, w1)
      | (Inr conn, w1) \<Rightarrow> leave_with t (session_body t w1))"

text \<open>The \<open>except Exception\<close> clause: log, print, and the function will return \<open>False\<close>.\<close>

definition deployment_failed :: "exn \<Rightarrow> world \<Rightarrow> world" where
  "deployment_failed e w =
     print (''[ERROR] '' @ str_exn e) (logger_error (''Deployment failed: '' @ str_exn e) w)"

text \<open>
  The \<open>finally\<close> clause, reached with \<open>ser\<close> bound: \<open>ser.close()\<close>. It is not guarded,
  so when it raises, its exception leaves \<open>deploy_config\<close> in place of the value the
  function was about to return.
\<close>

definition close_serial :: "transport \<Rightarrow> bool \<Rightarrow> world \<Rightarrow> (exn + bool) \<times> world" where
  "close_serial t result w =
     (case perform t SerialClose w of
        (Inl e, w1) \<Rightarrow> (Inl e, w1)
      | (Inr closed, w1) \<Rightarrow> (Inr result, w1))"

text \<open>
  \<open>deploy_config\<close>: \<open>Inr\<close> is the truth value returned, \<open>Inl\<close> an exception that leaves
  the function. The whole session is inside the \<open>try\<close>, so an exception of the serial
  port's opening, of the constructor, of the body or of the disconnect reaches the
  \<open>except\<close> clause. The \<open>finally\<close> clause closes the serial port when the name \<open>ser\<close>
  was bound, which is when \<open>establish_serial_connection\<close> returned. The two-second
  \<open>sleep\<close> changes nothing that the world records; the logger and \<open>print\<close> are taken to
  return.
\<close>

definition deploy_config :: "transport \<Rightarrow> world \<Rightarrow> (exn + bool) \<times> world" where
  "deploy_config t w =
     (case establish_serial_connection t w of
        (Inl e, w1) \<Rightarrow> (Inr False, deployment_failed e w1)
      | (Inr ser, w1) \<Rightarrow>
          (case netmiko_session t w1 of
             (Inl e, w2) \<Rightarrow> close_serial t False (deployment_failed e w2)
           | (Inr finished, w2) \<Rightarrow> close_serial t True w2))"

subsection \<open>Reading a run\<close>

text \<open>What a run added to the world it started from.\<close>

definition new_calls :: "world \<Rightarrow> world \<Rightarrow> (call \<times> reply) list" where
  "new_calls w0 w = drop (length (calls w0)) (calls w)"

definition new_log :: "world \<Rightarrow> world \<Rightarrow> (level \<times> string) list" where
  "new_log w0 w = drop (length (logfile w0)) (logfile w)"

text \<open>The batches sent, in order, each with whether its send returned.\<close>

fun returned :: "reply \<Rightarrow> bool" where
  "returned (Inr out) = True"
| "returned (Inl e) = False"

fun sent_batches :: "(call \<times> reply) list \<Rightarrow> (string list \<times> bool) list" where
  "sent_batches [] = []"
| "sent_batches ((SendConfigSet b, r) # cs) = (b, returned r) # sent_batches cs"
| "sent_batches (c # cs) = sent_batches cs"

text \<open>
  What leaves a \<open>with\<close> block whose body raised \<open>e\<close>, given the disconnect's answer; and
  what \<open>deploy_config\<close> yields when it was about to return a value, given the answer of
  \<open>ser.close()\<close>.
\<close>

fun leaving :: "exn \<Rightarrow> reply \<Rightarrow> exn" where
  "leaving e (Inl e2) = e2"
| "leaving e (Inr out) = e"

fun close_result :: "reply \<Rightarrow> bool \<Rightarrow> exn + bool" where
  "close_result (Inl e) result = Inl e"
| "close_result (Inr out) result = Inr result"

definition batches :: "string list list" where
  "batches = [get_base_config, get_mlag_config, generate_port_channels]"

text \<open>
  The function returns a bare truth value; the batches that went through are told by the
  log only, one line per batch, written right after its send returned.
\<close>

definition batch_messages :: "string list" where
  "batch_messages =
     [''Base configuration applied'', ''MLAG configuration applied'', ''Port-Channels 10-45 configured'']"

definition completed_batches :: "(level \<times> string) list \<Rightarrow> string list" where
  "completed_batches lg = map snd (filter (\<lambda>(l, m). l = INFO \<and> m \<in> set batch_messages) lg)"

text \<open>How often the save command was sent, whatever came of it.\<close>

definition persist_count :: "(call \<times> reply) list \<Rightarrow> nat" where
  "persist_count cs = length (filter (\<lambda>(c, r). c = write_memory) cs)"

subsection \<open>Reading a command list\<close>

text \<open>Python's \<open>s.startswith(p)\<close>.\<close>

definition starts_with :: "string \<Rightarrow> string \<Rightarrow> bool" where
  "starts_with p s = (take (length p) s = p)"

text \<open>An interface block opens with a command \<open>interface <name>\<close>.\<close>

definition is_interface_command :: "string \<Rightarrow> bool" where
  "is_interface_command c = starts_with ''interface '' c"

text \<open>The indices, in increasing order, at which a command occurs in a list.\<close>

definition positions :: "'a \<Rightarrow> 'a list \<Rightarrow> nat list" where
  "positions x xs = filter (\<lambda>i. xs ! i = x) [0..<length xs]"

subsection \<open>Transport stubs\<close>

text \<open>A transport on which every call returns (with empty text).\<close>

definition stub_ok :: transport where
  "stub_ok h c = Inr []"

text \<open>
  A transport that times out on the batch sent after \<open>n\<close> earlier batch sends, and
  returns on every other call.
\<close>

definition stub_fail_batch :: "nat \<Rightarrow> transport" where
  "stub_fail_batch n h c =
     (case c of
        SendConfigSet b \<Rightarrow>
          if length (sent_batches h) = n then Inl (TransportError ''timeout'') else Inr []
      | _ \<Rightarrow> Inr [])"

text \<open>A transport that times out on every single command and returns on every other call.\<close>

definition stub_fail_command :: transport where
  "stub_fail_command h c =
     (case c of
        SendCommand s p \<Rightarrow> Inl (TransportError ''timeout'')
      | _ \<Rightarrow> Inr [])"

text \<open>
  The same, on a serial port that is lost by the time it is closed: \<open>ser.close()\<close> raises
  as well.
\<close>

definition stub_fail_batch_close :: "nat \<Rightarrow> transport" where
  "stub_fail_batch_close n h c =
     (case c of
        SendConfigSet b \<Rightarrow>
          if length (sent_batches h) = n then Inl (TransportError ''timeout'') else Inr []
      | SerialClose \<Rightarrow> Inl (SerialException ''port lost'')
      | _ \<Rightarrow> Inr [])"

section \<open>Properties of \<open>create_vlans\<close>\<close>

lemma create_vlans_loop_bad_id:
  "\<exists>v\<in>set ids. \<not> (1 \<le> v \<and> v \<le> 4094) \<Longrightarrow>
   (truthy names \<longrightarrow> i + length ids = length (names_list names)) \<Longrightarrow>
   \<exists>m. create_vlans_loop names i ids cmds = Inl (ValueError m)"
proof (induction ids arbitrary: i cmds)
  case Nil
  then show ?case by simp
next
  case (Cons v rest)
  show ?case
  proof (cases "1 \<le> v \<and> v \<le> 4094")
    case False
    then show ?thesis by simp
  next
    case True
    with Cons.prems(1) have bad: "\<exists>v\<in>set rest. \<not> (1 \<le> v \<and> v \<le> 4094)"
      by auto
    from Cons.prems(2)
    have inv: "truthy names \<longrightarrow> Suc i + length rest = length (names_list names)"
      by simp
    from Cons.prems(2) have "truthy names \<longrightarrow> i < length (names_list names)"
      by auto
    with True Cons.IH [OF bad inv] show ?thesis
      by (simp add: list_get_def Let_def)
  qed
qed

lemma create_vlans_loop_no_names:
  "\<not> truthy names \<Longrightarrow>
   create_vlans_loop names i ids cmds =
     (case List.find (\<lambda>v. \<not> (1 \<le> v \<and> v \<le> 4094)) ids of
        None \<Rightarrow> Inr (cmds @ map (\<lambda>v. ''vlan '' @ str_int v) ids)
      | Some v \<Rightarrow> Inl (ValueError (''Invalid VLAN ID '' @ str_int v @ '': Must be 1-4094'')))"
  by (induction ids arbitrary: i cmds) (simp_all add: Let_def split: option.splits)

lemma create_vlans_loop_not_mismatch:
  "create_vlans_loop names i ids cmds \<noteq> Inl length_mismatch"
  by (induction names i ids cmds rule: create_vlans_loop.induct)
     (auto simp: length_mismatch_def list_get_def Let_def split: sum.splits)

text \<open>
  Claim C1, as the code has it. For the ids 10, 20, 30 with the names MGMT, VOICE, DATA the
  command-construction loop builds three strings, one per VLAN, each holding the id line
  and the name line joined by a newline. Cut at the newlines they read as the six lines
  \<open>vlan 10\<close>, \<open>name MGMT\<close>, \<open>vlan 20\<close>, \<open>name VOICE\<close>, \<open>vlan 30\<close>, \<open>name DATA\<close>, in
  that order.
\<close>

theorem create_vlans_commands_three_strings:
  "create_vlans_commands [10, 20, 30] (Some [''MGMT'', ''VOICE'', ''DATA'']) =
     Inr [''vlan 10\<newline>name MGMT'', ''vlan 20\<newline>name VOICE'', ''vlan 30\<newline>name DATA'']
   \<and> console_lines [''vlan 10\<newline>name MGMT'', ''vlan 20\<newline>name VOICE'', ''vlan 30\<newline>name DATA''] =
     [''vlan 10'', ''name MGMT'', ''vlan 20'', ''name VOICE'', ''vlan 30'', ''name DATA'']"
  by code_simp

text \<open>
  Claim C1 as written does not hold: the list built is not the list of six command
  strings.
\<close>

theorem create_vlans_commands_not_six_strings:
  "create_vlans_commands [10, 20, 30] (Some [''MGMT'', ''VOICE'', ''DATA'']) \<noteq>
     Inr [''vlan 10'', ''name MGMT'', ''vlan 20'', ''name VOICE'', ''vlan 30'', ''name DATA'']"
  by code_simp

text \<open>
  Claim C5. Whenever the id list holds an id outside 1 to 4094, \<open>create_vlans\<close> raises a
  \<open>ValueError\<close>, whatever the names and the transport are, and the world is left as it
  was: no connection was opened and no command was sent.
\<close>

theorem create_vlans_rejects_bad_id:
  "\<exists>v\<in>set vlan_ids. \<not> (1 \<le> v \<and> v \<le> 4094) \<Longrightarrow>
   \<exists>m. create_vlans t device_params vlan_ids vlan_names w = (Inl (ValueError m), w)"
proof (cases "truthy vlan_names \<and> length vlan_ids \<noteq> length (names_list vlan_names)")
  case True
  then show ?thesis
    by (simp add: create_vlans_def create_vlans_commands_def length_mismatch_def)
next
  case False
  assume bad: "\<exists>v\<in>set vlan_ids. \<not> (1 \<le> v \<and> v \<le> 4094)"
  from False
  have "truthy vlan_names \<longrightarrow> 0 + length vlan_ids = length (names_list vlan_names)"
    by simp
  from create_vlans_loop_bad_id [OF bad this]
  obtain m where "create_vlans_loop vlan_names 0 vlan_ids [] = Inl (ValueError m)"
    by blast
  with False show ?thesis
    by (auto simp: create_vlans_def create_vlans_commands_def)
qed

theorem create_vlans_rejects_bad_id_witness:
  "(\<exists>v\<in>set [5000::int]. \<not> (1 \<le> v \<and> v \<le> 4094)) \<and>
   (\<exists>m. create_vlans stub_ok [] [5000] None init_world = (Inl (ValueError m), init_world))"
  using create_vlans_rejects_bad_id [of "[5000]" stub_ok "[]" None init_world] by simp

text \<open>
  Claim C6, as the code has it. When a non-empty names list is supplied whose length
  differs from the length of the id list, \<open>create_vlans\<close> raises the length-mismatch
  \<open>ValueError\<close> and the world is left as it was. (An empty names list counts as no names
  at all.)
\<close>

theorem create_vlans_rejects_length_mismatch:
  "vlan_names = Some ns \<Longrightarrow> ns \<noteq> [] \<Longrightarrow> length ns \<noteq> length vlan_ids \<Longrightarrow>
   create_vlans t device_params vlan_ids vlan_names w = (Inl length_mismatch, w)"
  by (cases ns) (auto simp: create_vlans_def create_vlans_commands_def)

theorem create_vlans_rejects_length_mismatch_witness:
  "create_vlans stub_ok [] [10, 20] (Some [''MGMT'']) init_world = (Inl length_mismatch, init_world)"
  using create_vlans_rejects_length_mismatch
          [of "Some [''MGMT'']" "[''MGMT'']" "[10, 20]" stub_ok "[]" init_world]
  by simp

text \<open>
  Claim C6 as written does not hold: with the ids 10 and 20 and an empty names list, a
  supplied list of another length, nothing is raised; the connection is opened and the two
  bare commands are sent and saved.
\<close>

theorem create_vlans_empty_names_not_rejected:
  "create_vlans stub_ok [] [10, 20] (Some []) init_world =
     (Inr [],
      \<lparr>calls = [(ConnectHandler [], Inr []),
                (SendConfigSet [''vlan 10'', ''vlan 20''], Inr []),
                (SaveConfig, Inr []),
                (Disconnect, Inr [])],
       logfile = [], stdout = []\<rparr>)"
  by code_simp

text \<open>
  Claim C9. With an empty names list the commands built are the bare \<open>vlan <id>\<close> lines,
  one per id and nothing else (or the range error of the first bad id); the result is
  never the length-mismatch error. For any names argument, the length-mismatch error comes
  only from a non-empty names list.
\<close>

theorem create_vlans_commands_empty_names:
  "create_vlans_commands vlan_ids (Some []) =
     (case List.find (\<lambda>v. \<not> (1 \<le> v \<and> v \<le> 4094)) vlan_ids of
        None \<Rightarrow> Inr (map (\<lambda>v. ''vlan '' @ str_int v) vlan_ids)
      | Some v \<Rightarrow> Inl (ValueError (''Invalid VLAN ID '' @ str_int v @ '': Must be 1-4094'')))
   \<and> create_vlans_commands vlan_ids (Some []) \<noteq> Inl length_mismatch
   \<and> (create_vlans_commands vlan_ids vlan_names = Inl length_mismatch \<longrightarrow>
        (\<exists>n ns. vlan_names = Some (n # ns)))"
proof (intro conjI impI)
  show "create_vlans_commands vlan_ids (Some []) =
     (case List.find (\<lambda>v. \<not> (1 \<le> v \<and> v \<le> 4094)) vlan_ids of
        None \<Rightarrow> Inr (map (\<lambda>v. ''vlan '' @ str_int v) vlan_ids)
      | Some v \<Rightarrow> Inl (ValueError (''Invalid VLAN ID '' @ str_int v @ '': Must be 1-4094'')))"
    by (simp add: create_vlans_commands_def create_vlans_loop_no_names split: option.splits)
  show "create_vlans_commands vlan_ids (Some []) \<noteq> Inl length_mismatch"
    by (simp add: create_vlans_commands_def create_vlans_loop_not_mismatch)
  assume "create_vlans_commands vlan_ids vlan_names = Inl length_mismatch"
  then have "truthy vlan_names"
    by (simp add: create_vlans_commands_def create_vlans_loop_not_mismatch split: if_splits)
  then show "\<exists>n ns. vlan_names = Some (n # ns)"
    by (cases vlan_names rule: truthy.cases) simp_all
qed

theorem create_vlans_commands_empty_names_witness:
  "create_vlans_commands [10, 20] (Some []) = Inr [''vlan 10'', ''vlan 20'']
   \<and> create_vlans_commands [10, 20] (Some [''MGMT'']) = Inl length_mismatch
   \<and> (\<exists>n ns. Some [''MGMT''] = Some (n # ns))"
proof -
  have ten: "str_int 10 = ''10''" and twenty: "str_int 20 = ''20''"
    by code_simp+
  have mismatch: "create_vlans_commands [10, 20] (Some [''MGMT'']) = Inl length_mismatch"
    by (simp add: create_vlans_commands_def)
  from create_vlans_commands_empty_names [of "[10, 20]" "Some [''MGMT'']"] mismatch ten twenty
  show ?thesis by simp
qed

section \<open>Properties of the configuration templates\<close>

lemma positions_iff: "i \<in> set (positions x xs) \<longleftrightarrow> i < length xs \<and> xs ! i = x"
  by (auto simp: positions_def)

text \<open>
  Claim C10. In the list of \<open>get_base_config\<close> the element after \<open>no shutdown\<close> of the
  Management1 block is the fused string \<open>exitip domain-name Dashen.local\<close>, and it occurs
  once. From \<open>interface Management1\<close> (index 13) to the end there is no element \<open>exit\<close>,
  and the list has no element \<open>ip domain-name Dashen.local\<close>.
\<close>

theorem get_base_config_fused_exit:
  "get_base_config ! 13 = ''interface Management1''
   \<and> get_base_config ! 15 = ''no shutdown''
   \<and> get_base_config ! 16 = ''exitip domain-name Dashen.local''
   \<and> count_list get_base_config ''exitip domain-name Dashen.local'' = 1
   \<and> ''exit'' \<notin> set (drop 13 get_base_config)
   \<and> ''ip domain-name Dashen.local'' \<notin> set get_base_config"
  by (simp add: get_base_config_def HOSTNAME_def MGMT_IP_def)


lemma get_mlag_config_positions:
  "positions ''interface Vlan4094'' get_mlag_config = [4]"
  "positions ''interface Port-Channel100'' get_mlag_config = [13]"
  "positions ''mlag configuration'' get_mlag_config = [19]"
  "positions ''local-interface Vlan4094'' get_mlag_config = [21]"
  "positions ''peer-link Port-Channel100'' get_mlag_config = [23]"
  by (simp_all add: positions_def get_mlag_config_def MLAG_VLAN_IP_def MLAG_PEER_IP_def
        upt_rec [of _ "numeral _"])

lemma before_by_positions:
  assumes "positions a xs = [p]" "positions b xs = [q]" "p < q"
    and "i < length xs" "j < length xs" "xs ! i = a" "xs ! j = b"
  shows "i < j"
proof -
  from assms(4,6) have "i \<in> set (positions a xs)" by (simp only: positions_iff)
  with assms(1) have "i = p" by simp
  from assms(5,7) have "j \<in> set (positions b xs)" by (simp only: positions_iff)
  with assms(2) have "j = q" by simp
  with \<open>i = p\<close> assms(3) show ?thesis by simp
qed

text \<open>
  Claim C7. In the list of \<open>get_mlag_config\<close>, \<open>interface Port-Channel100\<close> occurs (once, at
  index 13) and every occurrence of it is at a strictly smaller index than every occurrence
  of \<open>peer-link Port-Channel100\<close> (once, at index 23, inside the block opened by
  \<open>mlag configuration\<close> at index 19). Likewise \<open>interface Vlan4094\<close> (index 4) comes
  strictly before every \<open>local-interface Vlan4094\<close> (index 21).
\<close>

theorem get_mlag_config_declared_before_referenced:
  "positions ''interface Port-Channel100'' get_mlag_config = [13]
   \<and> positions ''interface Vlan4094'' get_mlag_config = [4]
   \<and> positions ''mlag configuration'' get_mlag_config = [19]
   \<and> positions ''local-interface Vlan4094'' get_mlag_config = [21]
   \<and> positions ''peer-link Port-Channel100'' get_mlag_config = [23]
   \<and> (\<forall>i j. i < length get_mlag_config \<and> j < length get_mlag_config
         \<and> get_mlag_config ! i = ''interface Port-Channel100''
         \<and> get_mlag_config ! j = ''peer-link Port-Channel100'' \<longrightarrow> i < j)
   \<and> (\<forall>i j. i < length get_mlag_config \<and> j < length get_mlag_config
         \<and> get_mlag_config ! i = ''interface Vlan4094''
         \<and> get_mlag_config ! j = ''local-interface Vlan4094'' \<longrightarrow> i < j)"
proof (intro conjI allI impI)
  show "positions ''interface Port-Channel100'' get_mlag_config = [13]"
    by (rule get_mlag_config_positions)
  show "positions ''interface Vlan4094'' get_mlag_config = [4]"
    by (rule get_mlag_config_positions)
  show "positions ''mlag configuration'' get_mlag_config = [19]"
    by (rule get_mlag_config_positions)
  show "positions ''local-interface Vlan4094'' get_mlag_config = [21]"
    by (rule get_mlag_config_positions)
  show "positions ''peer-link Port-Channel100'' get_mlag_config = [23]"
    by (rule get_mlag_config_positions)
next
  fix i j
  assume h: "i < length get_mlag_config \<and> j < length get_mlag_config
         \<and> get_mlag_config ! i = ''interface Port-Channel100''
         \<and> get_mlag_config ! j = ''peer-link Port-Channel100''"
  have less: "(13::nat) < 23" by simp
  from h have h1: "i < length get_mlag_config" by (rule conjunct1)
  from h have h2: "j < length get_mlag_config" by (rule conjunct2 [THEN conjunct1])
  from h have h3: "get_mlag_config ! i = ''interface Port-Channel100''"
    by (rule conjunct2 [THEN conjunct2, THEN conjunct1])
  from h have h4: "get_mlag_config ! j = ''peer-link Port-Channel100''"
    by (rule conjunct2 [THEN conjunct2, THEN conjunct2])
  show "i < j"
    by (rule before_by_positions
          [OF get_mlag_config_positions(2) get_mlag_config_positions(5) less h1 h2 h3 h4])
next
  fix i j
  assume h: "i < length get_mlag_config \<and> j < length get_mlag_config
         \<and> get_mlag_config ! i = ''interface Vlan4094''
         \<and> get_mlag_config ! j = ''local-interface Vlan4094''"
  have less: "(4::nat) < 21" by simp
  from h have h1: "i < length get_mlag_config" by (rule conjunct1)
  from h have h2: "j < length get_mlag_config" by (rule conjunct2 [THEN conjunct1])
  from h have h3: "get_mlag_config ! i = ''interface Vlan4094''"
    by (rule conjunct2 [THEN conjunct2, THEN conjunct1])
  from h have h4: "get_mlag_config ! j = ''local-interface Vlan4094''"
    by (rule conjunct2 [THEN conjunct2, THEN conjunct2])
  show "i < j"
    by (rule before_by_positions
          [OF get_mlag_config_positions(1) get_mlag_config_positions(4) less h1 h2 h3 h4])
qed


theorem get_mlag_config_declared_before_referenced_witness:
  "13 < length get_mlag_config \<and> 23 < length get_mlag_config
   \<and> get_mlag_config ! 13 = ''interface Port-Channel100''
   \<and> get_mlag_config ! 23 = ''peer-link Port-Channel100''
   \<and> (13::nat) < 23"
proof -
  have here: "13 < length get_mlag_config \<and> 23 < length get_mlag_config
      \<and> get_mlag_config ! 13 = ''interface Port-Channel100''
      \<and> get_mlag_config ! 23 = ''peer-link Port-Channel100''"
    by (simp add: get_mlag_config_def)
  note ordered = get_mlag_config_declared_before_referenced
    [THEN conjunct2, THEN conjunct2, THEN conjunct2, THEN conjunct2, THEN conjunct2,
     THEN conjunct1, THEN spec, THEN spec, of 13 23]
  from ordered here have less: "(13::nat) < 23"
    by (rule mp)
  note a = here [THEN conjunct1]
    and b = here [THEN conjunct2, THEN conjunct1]
    and c = here [THEN conjunct2, THEN conjunct2, THEN conjunct1]
    and d = here [THEN conjunct2, THEN conjunct2, THEN conjunct2]
  show ?thesis
    by (intro conjI a b c d less)
qed

subsection \<open>The port-channel loop\<close>

lemma port_channels_loop_concat:
  "port_channels_loop config pos = config @ concat (map port_channel_commands pos)"
  by (induction pos arbitrary: config) simp_all

lemma length_port_channel_commands: "length (port_channel_commands po) = 11"
  by (simp add: port_channel_commands_def)

lemma interfaces_port_channel_commands:
  "length (filter is_interface_command (port_channel_commands po)) = 2"
  by (simp add: port_channel_commands_def is_interface_command_def starts_with_def)

lemma length_concat_blocks:
  "(\<forall>x\<in>set xs. length (f x) = n) \<Longrightarrow> length (concat (map f xs)) = n * length xs"
  by (induction xs) simp_all

lemma filter_concat_blocks:
  "(\<forall>x\<in>set xs. length (filter P (f x)) = m) \<Longrightarrow>
   length (filter P (concat (map f xs))) = m * length xs"
  by (induction xs) simp_all

lemma slice_concat_blocks:
  "(\<forall>x\<in>set xs. length (f x) = n) \<Longrightarrow> k < length xs \<Longrightarrow>
   take n (drop (n * k) (concat (map f xs))) = f (xs ! k)"
proof (induction xs arbitrary: k)
  case Nil
  then show ?case by simp
next
  case (Cons x xs)
  show ?case
  proof (cases k)
    case 0
    with Cons.prems show ?thesis by simp
  next
    case (Suc k')
    with Cons.prems have "take n (drop (n * k') (concat (map f xs))) = f (xs ! k')"
      by (intro Cons.IH) simp_all
    with Suc Cons.prems show ?thesis by simp
  qed
qed

lemma generate_port_channels_concat:
  "generate_port_channels = concat (map port_channel_commands [10..45])"
  by (simp add: generate_port_channels_def py_range_def port_channels_loop_concat)

lemma length_generate_port_channels: "length generate_port_channels = 396"
  unfolding generate_port_channels_concat
  by (subst length_concat_blocks [where n = 11]) (simp_all add: length_port_channel_commands)

lemma generate_port_channels_slice:
  assumes "10 \<le> po" "po \<le> 45"
  shows "take 11 (drop (11 * nat (po - 10)) generate_port_channels) = port_channel_commands po"
proof -
  have k: "nat (po - 10) < length [10..45::int]"
    using assms by simp
  have "[10..45] ! nat (po - 10) = 10 + int (nat (po - 10))"
    using assms by (intro nth_upto) simp
  then have nth: "[10..45] ! nat (po - 10) = po"
    using assms by simp
  have "take 11 (drop (11 * nat (po - 10)) (concat (map port_channel_commands [10..45])))
        = port_channel_commands ([10..45] ! nat (po - 10))"
    using k by (intro slice_concat_blocks) (simp_all add: length_port_channel_commands)
  then show ?thesis
    by (simp only: generate_port_channels_concat nth)
qed

lemma generate_port_channels_nth:
  assumes "10 \<le> po" "po \<le> 45" "i < 11"
  shows "generate_port_channels ! (11 * nat (po - 10) + i) = port_channel_commands po ! i"
proof -
  have "11 * nat (po - 10) + i < 396"
    using assms by simp
  then have "take 11 (drop (11 * nat (po - 10)) generate_port_channels) ! i
      = generate_port_channels ! (11 * nat (po - 10) + i)"
    using assms(3) by (simp add: length_generate_port_channels)
  then show ?thesis
    using generate_port_channels_slice [OF assms(1,2)] by simp
qed

lemma str_int_examples:
  "str_int 1 = ''1''" "str_int 2 = ''2''" "str_int 10 = ''10''" "str_int 11 = ''11''"
  by code_simp+

text \<open>
  Claim C2, at the triple the code fixes (start 10, end 45, member offset 9). The list of
  \<open>generate_port_channels\<close> holds exactly \<open>2 * (45 - 10 + 1)\<close> commands that open an
  interface block, and for each channel id \<open>po\<close> from 10 to 45 the member interface of its
  block is \<open>Ethernet\<close> numbered \<open>po - 9\<close>, bound to channel group \<open>po\<close>.
\<close>

theorem generate_port_channels_blocks_and_members:
  "length (filter is_interface_command generate_port_channels) = 2 * nat (45 - 10 + 1)
   \<and> (\<forall>po\<in>{10..45}.
         generate_port_channels ! (11 * nat (po - 10)) = ''interface Ethernet'' @ str_int (po - 9)
       \<and> generate_port_channels ! (11 * nat (po - 10) + 2) =
           ''channel-group '' @ str_int po @ '' mode active'')"
proof (intro conjI ballI)
  show "length (filter is_interface_command generate_port_channels) = 2 * nat (45 - 10 + 1)"
    unfolding generate_port_channels_concat
    by (subst filter_concat_blocks [where m = 2]) (simp_all add: interfaces_port_channel_commands)
next
  fix po :: int
  assume "po \<in> {10..45}"
  then have b: "10 \<le> po" "po \<le> 45"
    by simp_all
  from generate_port_channels_nth [OF b, of 0]
  show "generate_port_channels ! (11 * nat (po - 10)) = ''interface Ethernet'' @ str_int (po - 9)"
    by (simp add: port_channel_commands_def)
  from generate_port_channels_nth [OF b, of 2]
  show "generate_port_channels ! (11 * nat (po - 10) + 2) =
          ''channel-group '' @ str_int po @ '' mode active''"
    by (simp add: port_channel_commands_def)
qed

theorem generate_port_channels_blocks_and_members_witness:
  "(10::int) \<in> {10..45}
   \<and> generate_port_channels ! 0 = ''interface Ethernet1''
   \<and> generate_port_channels ! 2 = ''channel-group 10 mode active''"
  using generate_port_channels_blocks_and_members [THEN conjunct2, THEN bspec, of 10]
  by (simp add: str_int_examples numeral_2_eq_2)

text \<open>
  Claim C8. The list of \<open>generate_port_channels\<close> is eleven commands per channel id, and
  for every channel id \<open>po\<close> of the range the eleven commands starting at index
  \<open>11 * (po - 10)\<close> are the five member-interface commands of \<open>po\<close> followed at once by the
  six port-channel commands of the same \<open>po\<close>: the two blocks of one id are adjacent, and
  the pairs of different ids follow one another without overlap.
\<close>

theorem generate_port_channels_pairs_contiguous:
  "length generate_port_channels = 11 * length (py_range 10 46)
   \<and> (\<forall>po\<in>set (py_range 10 46).
        take 11 (drop (11 * nat (po - 10)) generate_port_channels) =
          [''interface Ethernet'' @ str_int (po - 9),
           ''description PC_'' @ str_int po @ ''_MEMBER'',
           ''channel-group '' @ str_int po @ '' mode active'',
           ''no shutdown'',
           ''exit'']
          @
          [''interface Port-Channel'' @ str_int po,
           ''description UPLINK_PO_'' @ str_int po,
           ''switchport mode trunk'',
           ''mlag '' @ str_int po,
           ''no shutdown'',
           ''exit''])"
proof (intro conjI ballI)
  show "length generate_port_channels = 11 * length (py_range 10 46)"
    by (simp add: length_generate_port_channels py_range_def)
next
  fix po
  assume "po \<in> set (py_range 10 46)"
  then have b: "10 \<le> po" "po \<le> 45"
    by (simp_all add: py_range_def del: upto_rec_numeral)
  from generate_port_channels_slice [OF b]
  show "take 11 (drop (11 * nat (po - 10)) generate_port_channels) =
          [''interface Ethernet'' @ str_int (po - 9),
           ''description PC_'' @ str_int po @ ''_MEMBER'',
           ''channel-group '' @ str_int po @ '' mode active'',
           ''no shutdown'',
           ''exit'']
          @
          [''interface Port-Channel'' @ str_int po,
           ''description UPLINK_PO_'' @ str_int po,
           ''switchport mode trunk'',
           ''mlag '' @ str_int po,
           ''no shutdown'',
           ''exit'']"
    by (simp add: port_channel_commands_def)
qed

theorem generate_port_channels_pairs_contiguous_witness:
  "(11::int) \<in> set (py_range 10 46)
   \<and> take 11 (drop 11 generate_port_channels) =
       [''interface Ethernet2'', ''description PC_11_MEMBER'', ''channel-group 11 mode active'',
        ''no shutdown'', ''exit'',
        ''interface Port-Channel11'', ''description UPLINK_PO_11'', ''switchport mode trunk'',
        ''mlag 11'', ''no shutdown'', ''exit'']"
  using generate_port_channels_pairs_contiguous [THEN conjunct2, THEN bspec, of 11]
  by (simp add: py_range_def str_int_examples)

section \<open>Properties of \<open>deploy_config\<close>\<close>

lemmas deploy_defs = deploy_config_def establish_serial_connection_def netmiko_session_def
  session_body_def leave_with_def close_serial_def perform_def logger_info_def logger_error_def
  print_def deployment_failed_def new_calls_def new_log_def Let_def

lemma deploy_outcomes:
  assumes "deploy_config t w0 = (res, w)"
  shows
   "(\<exists>e. new_calls w0 w = [(SerialOpen serial_settings, Inl e)] \<and> res = Inr False)
  \<or> (\<exists>a e s. new_calls w0 w =
        [(SerialOpen serial_settings, Inr a), (ConnectHandler netmiko_device, Inl e), (SerialClose, s)]
      \<and> res = close_result s False)
  \<or> (\<exists>a c e d s. new_calls w0 w =
        [(SerialOpen serial_settings, Inr a), (ConnectHandler netmiko_device, Inr c),
         (SendConfigSet get_base_config, Inl e),
         (Disconnect, d), (SerialClose, s)]
      \<and> new_log w0 w =
        [(INFO, ''Serial connection established on '' @ SERIAL_PORT),
         (INFO, ''Netmiko session established''),
         (ERROR, ''Deployment failed: '' @ str_exn (leaving e d))]
      \<and> res = close_result s False)
  \<or> (\<exists>a c o1 e d s. new_calls w0 w =
        [(SerialOpen serial_settings, Inr a), (ConnectHandler netmiko_device, Inr c),
         (SendConfigSet get_base_config, Inr o1),
         (SendConfigSet get_mlag_config, Inl e),
         (Disconnect, d), (SerialClose, s)]
      \<and> new_log w0 w =
        [(INFO, ''Serial connection established on '' @ SERIAL_PORT),
         (INFO, ''Netmiko session established''),
         (INFO, ''Base configuration applied''),
         (ERROR, ''Deployment failed: '' @ str_exn (leaving e d))]
      \<and> res = close_result s False)
  \<or> (\<exists>a c o1 o2 e d s. new_calls w0 w =
        [(SerialOpen serial_settings, Inr a), (ConnectHandler netmiko_device, Inr c),
         (SendConfigSet get_base_config, Inr o1),
         (SendConfigSet get_mlag_config, Inr o2),
         (SendConfigSet generate_port_channels, Inl e),
         (Disconnect, d), (SerialClose, s)]
      \<and> new_log w0 w =
        [(INFO, ''Serial connection established on '' @ SERIAL_PORT),
         (INFO, ''Netmiko session established''),
         (INFO, ''Base configuration applied''),
         (INFO, ''MLAG configuration applied''),
         (ERROR, ''Deployment failed: '' @ str_exn (leaving e d))]
      \<and> res = close_result s False)
  \<or> (\<exists>a c o1 o2 o3 x d s. new_calls w0 w =
        [(SerialOpen serial_settings, Inr a), (ConnectHandler netmiko_device, Inr c),
         (SendConfigSet get_base_config, Inr o1),
         (SendConfigSet get_mlag_config, Inr o2),
         (SendConfigSet generate_port_channels, Inr o3),
         (write_memory, x),
         (Disconnect, d), (SerialClose, s)]
      \<and> res = close_result s (returned x \<and> returned d))"
  using assms
  by (auto simp: deploy_defs split: sum.splits exn.splits)


lemma completed_batches_simps:
  "completed_batches [] = []"
  "completed_batches ((ERROR, m) # lg) = completed_batches lg"
  "completed_batches ((INFO, m) # lg) =
     (if m \<in> set batch_messages then m # completed_batches lg else completed_batches lg)"
  by (simp_all add: completed_batches_def)

lemma close_result_False: "close_result s False \<noteq> Inr True"
  by (cases s) simp_all

lemma close_result_True_iff: "close_result s r = Inr True \<longleftrightarrow> r \<and> returned s"
  by (cases s) auto

text \<open>
  Claim C3, as the code has it. Whenever a run of \<open>deploy_config\<close> has a batch send that
  raised: the function does not return \<open>True\<close>; the save command \<open>write memory\<close> was not
  sent; the failed batch is the first, second or third one, the batches sent are exactly the
  ones before it (each of which returned) and then the failed one; the batches the log
  reports as applied are exactly the ones before the failed one; after the failed send come
  only the disconnect and the closing of the serial port; the function returns \<open>False\<close>,
  unless closing the serial port raised, and then that exception leaves the function; and
  the log has the error line of the exception that left the session, which is the one of
  the disconnect when it raised and the one of the batch otherwise.
\<close>

theorem deploy_config_stops_at_failed_batch:
  assumes run: "deploy_config t w0 = (res, w)"
      and failed: "(SendConfigSet b, Inl e) \<in> set (new_calls w0 w)"
  shows "res \<noteq> Inr True
     \<and> persist_count (new_calls w0 w) = 0
     \<and> (\<exists>k<3. b = batches ! k
           \<and> sent_batches (new_calls w0 w) = map (\<lambda>c. (c, True)) (take k batches) @ [(b, False)]
           \<and> completed_batches (new_log w0 w) = take k batch_messages)
     \<and> (\<exists>pre d s.
           new_calls w0 w = pre @ [(SendConfigSet b, Inl e), (Disconnect, d), (SerialClose, s)]
           \<and> res = close_result s False
           \<and> (ERROR, ''Deployment failed: '' @ str_exn (leaving e d)) \<in> set (new_log w0 w))"
proof -
  note simps = persist_count_def write_memory_def batches_def completed_batches_simps
    batch_messages_def SERIAL_PORT_def close_result_False
  let ?P = "\<lambda>k. b = batches ! k
           \<and> sent_batches (new_calls w0 w) = map (\<lambda>c. (c, True)) (take k batches) @ [(b, False)]
           \<and> completed_batches (new_log w0 w) = take k batch_messages"
  let ?Q = "\<lambda>pre d s.
           new_calls w0 w = pre @ [(SendConfigSet b, Inl e), (Disconnect, d), (SerialClose, s)]
           \<and> res = close_result s False
           \<and> (ERROR, ''Deployment failed: '' @ str_exn (leaving e d)) \<in> set (new_log w0 w)"
  from deploy_outcomes [OF run] show ?thesis
  proof (elim disjE exE conjE, goal_cases)
    case (1 e')
    with failed show ?case by simp
  next
    case (2 a e' s)
    with failed show ?case by simp
  next
    case (3 a c e' d s)
    from failed 3(1) have eq: "b = get_base_config" "e' = e" by simp_all
    with 3 have "?P 0" by (simp add: simps)
    then have k: "\<exists>k<3. ?P k" by (intro exI [of _ 0]) simp
    from 3 eq
    have "?Q [(SerialOpen serial_settings, Inr a), (ConnectHandler netmiko_device, Inr c)] d s"
      by simp
    then have "\<exists>pre d s. ?Q pre d s" by (intro exI)
    with k 3 eq show ?case by (simp add: simps)
  next
    case (4 a c o1 e' d s)
    from failed 4(1) have eq: "b = get_mlag_config" "e' = e" by simp_all
    with 4 have "?P 1" by (simp add: simps)
    then have k: "\<exists>k<3. ?P k" by (intro exI [of _ 1]) simp
    from 4 eq
    have "?Q [(SerialOpen serial_settings, Inr a), (ConnectHandler netmiko_device, Inr c),
              (SendConfigSet get_base_config, Inr o1)] d s"
      by simp
    then have "\<exists>pre d s. ?Q pre d s" by (intro exI)
    with k 4 eq show ?case by (simp add: simps)
  next
    case (5 a c o1 o2 e' d s)
    from failed 5(1) have eq: "b = generate_port_channels" "e' = e" by simp_all
    with 5 have "?P 2" by (simp add: simps)
    then have k: "\<exists>k<3. ?P k" by (intro exI [of _ 2]) simp
    from 5 eq
    have "?Q [(SerialOpen serial_settings, Inr a), (ConnectHandler netmiko_device, Inr c),
              (SendConfigSet get_base_config, Inr o1),
              (SendConfigSet get_mlag_config, Inr o2)] d s"
      by simp
    then have "\<exists>pre d s. ?Q pre d s" by (intro exI)
    with k 5 eq show ?case by (simp add: simps)
  next
    case (6 a c o1 o2 o3 x d s)
    with failed show ?case by (simp add: write_memory_def)
  qed
qed

lemma run_fail_first:
  "deploy_config (stub_fail_batch 0) init_world =
     (Inr False,
      \<lparr>calls = [(SerialOpen serial_settings, Inr []),
                (ConnectHandler netmiko_device, Inr []),
                (SendConfigSet get_base_config, Inl (TransportError ''timeout'')),
                (Disconnect, Inr []),
                (SerialClose, Inr [])],
       logfile = [(INFO, ''Serial connection established on '' @ SERIAL_PORT),
                  (INFO, ''Netmiko session established''),
                  (ERROR, ''Deployment failed: timeout'')],
       stdout = [''[ERROR] timeout'']\<rparr>)"
  by (simp add: deploy_defs stub_fail_batch_def init_world_def)

lemma run_fail_second:
  "deploy_config (stub_fail_batch 1) init_world =
     (Inr False,
      \<lparr>calls = [(SerialOpen serial_settings, Inr []),
                (ConnectHandler netmiko_device, Inr []),
                (SendConfigSet get_base_config, Inr []),
                (SendConfigSet get_mlag_config, Inl (TransportError ''timeout'')),
                (Disconnect, Inr []),
                (SerialClose, Inr [])],
       logfile = [(INFO, ''Serial connection established on '' @ SERIAL_PORT),
                  (INFO, ''Netmiko session established''),
                  (INFO, ''Base configuration applied''),
                  (ERROR, ''Deployment failed: timeout'')],
       stdout = [''[ERROR] timeout'']\<rparr>)"
  by (simp add: deploy_defs stub_fail_batch_def init_world_def)

lemma run_fail_second_close:
  "deploy_config (stub_fail_batch_close 1) init_world =
     (Inl (SerialException ''port lost''),
      \<lparr>calls = [(SerialOpen serial_settings, Inr []),
                (ConnectHandler netmiko_device, Inr []),
                (SendConfigSet get_base_config, Inr []),
                (SendConfigSet get_mlag_config, Inl (TransportError ''timeout'')),
                (Disconnect, Inr []),
                (SerialClose, Inl (SerialException ''port lost''))],
       logfile = [(INFO, ''Serial connection established on '' @ SERIAL_PORT),
                  (INFO, ''Netmiko session established''),
                  (INFO, ''Base configuration applied''),
                  (ERROR, ''Deployment failed: timeout'')],
       stdout = [''[ERROR] timeout'']\<rparr>)"
  by (simp add: deploy_defs stub_fail_batch_close_def init_world_def)

theorem deploy_config_stops_at_failed_batch_witness:
  "fst (deploy_config (stub_fail_batch 1) init_world) = Inr False
   \<and> (SendConfigSet get_mlag_config, Inl (TransportError ''timeout''))
        \<in> set (new_calls init_world (snd (deploy_config (stub_fail_batch 1) init_world)))
   \<and> persist_count (new_calls init_world (snd (deploy_config (stub_fail_batch 1) init_world))) = 0
   \<and> completed_batches (new_log init_world (snd (deploy_config (stub_fail_batch 1) init_world)))
        = [''Base configuration applied'']"
proof -
  let ?w = "snd (deploy_config (stub_fail_batch 1) init_world)"
  have run: "deploy_config (stub_fail_batch 1) init_world = (Inr False, ?w)"
    unfolding run_fail_second by simp
  have failed: "(SendConfigSet get_mlag_config, Inl (TransportError ''timeout''))
        \<in> set (new_calls init_world ?w)"
    unfolding run_fail_second
    by (simp add: new_calls_def init_world_def)
  note concl = deploy_config_stops_at_failed_batch [OF run failed]
  have unsaved: "persist_count (new_calls init_world ?w) = 0"
    by (rule concl [THEN conjunct2, THEN conjunct1])
  have logged: "completed_batches (new_log init_world ?w) = [''Base configuration applied'']"
    unfolding run_fail_second
    by (simp add: new_log_def init_world_def completed_batches_simps batch_messages_def)
  have res: "fst (deploy_config (stub_fail_batch 1) init_world) = Inr False"
    unfolding run_fail_second by simp
  show ?thesis
    by (intro conjI res failed unsaved logged)
qed

text \<open>
  Claim C3 as written does not hold. A run failing on the first batch and a run failing on
  the second batch return the same value, \<open>False\<close>, though one applied no batch and the
  other applied the base batch: the value returned holds no list of completed batches. And
  on a transport where the second batch fails and closing the serial port raises as well,
  no value is returned at all: the exception of \<open>ser.close()\<close> leaves the function.
\<close>

theorem deploy_config_failure_result_is_bare:
  "fst (deploy_config (stub_fail_batch 0) init_world) = Inr False
   \<and> fst (deploy_config (stub_fail_batch 1) init_world) = Inr False
   \<and> completed_batches (new_log init_world (snd (deploy_config (stub_fail_batch 0) init_world)))
        = []
   \<and> completed_batches (new_log init_world (snd (deploy_config (stub_fail_batch 1) init_world)))
        = [''Base configuration applied'']
   \<and> fst (deploy_config (stub_fail_batch_close 1) init_world) = Inl (SerialException ''port lost'')"
  unfolding run_fail_first run_fail_second run_fail_second_close
  by (simp add: new_log_def init_world_def completed_batches_simps batch_messages_def
        SERIAL_PORT_def)

text \<open>
  Claim C4, as the code has it. Whenever all three batch sends of a run returned, the save
  command \<open>write memory\<close> was sent exactly once, right after the last batch, followed only
  by the disconnect and the closing of the serial port; and the function returns \<open>True\<close>
  exactly when the save command, the disconnect and the closing of the serial port all
  returned.
\<close>

theorem deploy_config_saves_once_after_batches:
  assumes run: "deploy_config t w0 = (res, w)"
      and sent: "sent_batches (new_calls w0 w) = map (\<lambda>b. (b, True)) batches"
  shows "persist_count (new_calls w0 w) = 1
     \<and> (\<exists>a c o1 o2 o3 x d s.
          new_calls w0 w =
            [(SerialOpen serial_settings, Inr a), (ConnectHandler netmiko_device, Inr c),
             (SendConfigSet get_base_config, Inr o1),
             (SendConfigSet get_mlag_config, Inr o2),
             (SendConfigSet generate_port_channels, Inr o3),
             (write_memory, x),
             (Disconnect, d), (SerialClose, s)]
          \<and> res = close_result s (returned x \<and> returned d)
          \<and> (res = Inr True \<longleftrightarrow> returned x \<and> returned d \<and> returned s))"
  using deploy_outcomes [OF run]
proof (elim disjE exE conjE, goal_cases)
  case (1 e')
  with sent show ?case by (simp add: batches_def)
next
  case (2 a e' s)
  with sent show ?case by (simp add: batches_def)
next
  case (3 a c e' d s)
  with sent show ?case by (simp add: batches_def)
next
  case (4 a c o1 e' d s)
  with sent show ?case by (simp add: batches_def)
next
  case (5 a c o1 o2 e' d s)
  with sent show ?case by (simp add: batches_def)
next
  case (6 a c o1 o2 o3 x d s)
  then show ?case by (simp add: persist_count_def write_memory_def close_result_True_iff)
qed

lemma run_ok:
  "deploy_config stub_ok init_world =
     (Inr True,
      \<lparr>calls = [(SerialOpen serial_settings, Inr []),
                (ConnectHandler netmiko_device, Inr []),
                (SendConfigSet get_base_config, Inr []),
                (SendConfigSet get_mlag_config, Inr []),
                (SendConfigSet generate_port_channels, Inr []),
                (write_memory, Inr []),
                (Disconnect, Inr []),
                (SerialClose, Inr [])],
       logfile = [(INFO, ''Serial connection established on '' @ SERIAL_PORT),
                  (INFO, ''Netmiko session established''),
                  (INFO, ''Base configuration applied''),
                  (INFO, ''MLAG configuration applied''),
                  (INFO, ''Port-Channels 10-45 configured''),
                  (INFO, ''Configuration saved'')],
       stdout = [''\<newline>[SUCCESS] Deployment completed via console!'']\<rparr>)"
  by (simp add: deploy_defs stub_ok_def init_world_def)

theorem deploy_config_saves_once_after_batches_witness:
  "fst (deploy_config stub_ok init_world) = Inr True
   \<and> sent_batches (new_calls init_world (snd (deploy_config stub_ok init_world)))
        = map (\<lambda>b. (b, True)) batches
   \<and> persist_count (new_calls init_world (snd (deploy_config stub_ok init_world))) = 1"
proof -
  let ?w = "snd (deploy_config stub_ok init_world)"
  have run: "deploy_config stub_ok init_world = (Inr True, ?w)"
    unfolding run_ok by simp
  have sent: "sent_batches (new_calls init_world ?w) = map (\<lambda>b. (b, True)) batches"
    unfolding run_ok
    by (simp add: new_calls_def init_world_def batches_def write_memory_def)
  have once: "persist_count (new_calls init_world ?w) = 1"
    by (rule deploy_config_saves_once_after_batches [OF run sent, THEN conjunct1])
  have res: "fst (deploy_config stub_ok init_world) = Inr True"
    unfolding run_ok by simp
  show ?thesis
    by (intro conjI res sent once)
qed

lemma run_fail_command:
  "deploy_config stub_fail_command init_world =
     (Inr False,
      \<lparr>calls = [(SerialOpen serial_settings, Inr []),
                (ConnectHandler netmiko_device, Inr []),
                (SendConfigSet get_base_config, Inr []),
                (SendConfigSet get_mlag_config, Inr []),
                (SendConfigSet generate_port_channels, Inr []),
                (write_memory, Inl (TransportError ''timeout'')),
                (Disconnect, Inr []),
                (SerialClose, Inr [])],
       logfile = [(INFO, ''Serial connection established on '' @ SERIAL_PORT),
                  (INFO, ''Netmiko session established''),
                  (INFO, ''Base configuration applied''),
                  (INFO, ''MLAG configuration applied''),
                  (INFO, ''Port-Channels 10-45 configured''),
                  (ERROR, ''Deployment failed: timeout'')],
       stdout = [''[ERROR] timeout'']\<rparr>)"
  by (simp add: deploy_defs stub_fail_command_def init_world_def write_memory_def)

text \<open>
  Claim C4 as written does not hold: on a transport where the three batch sends return and
  the save command times out, every batch send succeeded and the function returns
  \<open>False\<close>.
\<close>

theorem deploy_config_save_failure_not_success:
  "sent_batches (new_calls init_world (snd (deploy_config stub_fail_command init_world)))
     = [(get_base_config, True), (get_mlag_config, True), (generate_port_channels, True)]
   \<and> fst (deploy_config stub_fail_command init_world) = Inr False"
  unfolding run_fail_command
  by (simp add: new_calls_def init_world_def write_memory_def)

end
